theory Spec2Isabelle
  imports Complex_Main "HOL-Library.AList" "HOL-Library.Word"
begin

section \<open>The Strava dashboard script, \<^verbatim>\<open>streamlit_app.py\<close>\<close>

text \<open>
  The script is one page render: load the configuration, refresh the OAuth token when it
  has expired, fetch the activity list and the latest run, derive a few statistics and
  draw widgets. The embedding keeps that order. Everything outside the script (the
  configuration file, the clock, the three HTTP endpoints, the polyline decoder) is a
  parameter; every widget call, HTTP request and file write is an event of a trace, in
  the order the script performs them; every exception is a value.

  Python floats are modelled as exact reals: the theorems are statements about the
  arithmetic the script writes down, not about IEEE rounding.
\<close>

subsection \<open>Calendar arithmetic of Python's \<^verbatim>\<open>datetime\<close>\<close>

text \<open>
  \<^verbatim>\<open>calculate_target_km\<close> builds two \<^verbatim>\<open>datetime\<close> values, subtracts and reads
  \<^verbatim>\<open>.days\<close>. The definitions below follow the standard library: the proleptic
  Gregorian ordinal of a date, and the normalising constructor of \<^verbatim>\<open>timedelta\<close>.
\<close>

record datetime =
  year :: int
  month :: int
  day :: int
  hour :: int
  minute :: int
  second :: int
  microsecond :: int

record timedelta =
  days :: int
  seconds :: int
  microseconds :: int

definition is_leap :: "int \<Rightarrow> bool" where
  "is_leap y = (y mod 4 = 0 \<and> (y mod 100 \<noteq> 0 \<or> y mod 400 = 0))"

definition days_before_year :: "int \<Rightarrow> int" where
  "days_before_year yr = (let y = yr - 1 in y * 365 + y div 4 - y div 100 + y div 400)"

text \<open>The library's table, indexed by month, with a placeholder at index 0.\<close>

definition DAYS_BEFORE_MONTH :: "int list" where
  "DAYS_BEFORE_MONTH = [-1, 0, 31, 59, 90, 120, 151, 181, 212, 243, 273, 304, 334]"

definition days_before_month :: "int \<Rightarrow> int \<Rightarrow> int" where
  "days_before_month y m =
     DAYS_BEFORE_MONTH ! nat m + (if m > 2 \<and> is_leap y then 1 else 0)"

definition ymd2ord :: "int \<Rightarrow> int \<Rightarrow> int \<Rightarrow> int" where
  "ymd2ord y m d = days_before_year y + days_before_month y m + d"

definition toordinal :: "datetime \<Rightarrow> int" where
  "toordinal t = ymd2ord (year t) (month t) (day t)"

text \<open>\<^verbatim>\<open>timedelta(days, seconds, microseconds)\<close> carries microseconds into seconds and
  seconds into days, with floor division.\<close>

definition new_timedelta :: "int \<Rightarrow> int \<Rightarrow> int \<Rightarrow> timedelta" where
  "new_timedelta d s us =
     (let s1 = s + us div 1000000;
          us1 = us mod 1000000;
          d1 = d + s1 div 86400;
          s2 = s1 mod 86400
      in \<lparr>days = d1, seconds = s2, microseconds = us1\<rparr>)"

text \<open>\<^verbatim>\<open>datetime.__sub__\<close> for two naive values.\<close>

definition datetime_sub :: "datetime \<Rightarrow> datetime \<Rightarrow> timedelta" where
  "datetime_sub a b =
     (let days1 = toordinal a;
          days2 = toordinal b;
          secs1 = second a + minute a * 60 + hour a * 3600;
          secs2 = second b + minute b * 60 + hour b * 3600
      in new_timedelta (days1 - days2) (secs1 - secs2) (microsecond a - microsecond b))"

text \<open>\<^verbatim>\<open>datetime.datetime(y, m, d)\<close>: the time of day defaults to midnight.\<close>

definition datetime_ymd :: "int \<Rightarrow> int \<Rightarrow> int \<Rightarrow> datetime" where
  "datetime_ymd y m d =
     \<lparr>year = y, month = m, day = d, hour = 0, minute = 0, second = 0, microsecond = 0\<rparr>"

text \<open>What the constructor of \<^verbatim>\<open>datetime\<close> accepts; every value of
  \<^verbatim>\<open>datetime.now()\<close> satisfies it.\<close>

definition days_in_month :: "int \<Rightarrow> int \<Rightarrow> int" where
  "days_in_month y m =
     (if m = 2 then (if is_leap y then 29 else 28)
      else if m = 4 \<or> m = 6 \<or> m = 9 \<or> m = 11 then 30 else 31)"

definition valid_time :: "int \<Rightarrow> int \<Rightarrow> int \<Rightarrow> int \<Rightarrow> bool" where
  "valid_time h mi s us =
     (0 \<le> h \<and> h < 24 \<and> 0 \<le> mi \<and> mi < 60 \<and> 0 \<le> s \<and> s < 60 \<and> 0 \<le> us \<and> us < 1000000)"

definition valid_datetime :: "datetime \<Rightarrow> bool" where
  "valid_datetime t =
     (1 \<le> year t \<and> year t \<le> 9999 \<and> 1 \<le> month t \<and> month t \<le> 12 \<and>
      1 \<le> day t \<and> day t \<le> days_in_month (year t) (month t) \<and>
      valid_time (hour t) (minute t) (second t) (microsecond t))"

subsection \<open>\<^verbatim>\<open>calculate_target_km\<close>\<close>

text \<open>
  The source reads \<^verbatim>\<open>datetime.datetime.now()\<close> three times within one call; the
  three readings are taken as one instant, the parameter \<open>now\<close>. The quotient is Python's
  true division of two integers.
\<close>

definition calculate_target_km :: "datetime \<Rightarrow> real" where
  "calculate_target_km now =
     (let target_km = (2000 :: int);
          start_of_year = datetime_ymd (year now) 1 1;
          end_of_year = datetime_ymd (year now) 12 31;
          today = now;
          days_between = days (datetime_sub end_of_year start_of_year);
          days_passed = days (datetime_sub today start_of_year);
          target_today = (real_of_int target_km / real_of_int days_between) * real_of_int days_passed
      in target_today)"

subsection \<open>The year-to-date target as the specification words it\<close>

text \<open>
  Days elapsed since January 1 counted from the calendar alone (the lengths of the months
  before the current one, plus the days before today in the current month), and the number
  of days of the year, January 1 to December 31 with both ends counted.
\<close>

definition days_elapsed_since_jan1 :: "datetime \<Rightarrow> int" where
  "days_elapsed_since_jan1 t =
     sum_list (map (days_in_month (year t)) [1 .. month t - 1]) + (day t - 1)"

definition days_in_year :: "int \<Rightarrow> int" where
  "days_in_year y = (if is_leap y then 366 else 365)"

definition spec_target_inclusive :: "datetime \<Rightarrow> real" where
  "spec_target_inclusive t =
     2000 * real_of_int (days_elapsed_since_jan1 t) / real_of_int (days_in_year (year t))"

subsection \<open>Values, dictionaries and exceptions\<close>

text \<open>
  A decoded JSON or TOML value. A Python \<^verbatim>\<open>dict\<close> is an association list with
  distinct keys; \<^verbatim>\<open>None\<close> is \<open>JNull\<close>.
\<close>

datatype json =
    JNull
  | JBool bool
  | JNum real
  | JStr string
  | JArr "json list"
  | JObj "(string \<times> json) list"

type_synonym dict = "(string \<times> json) list"

datatype error =
    FileNotFoundError
  | TomlDecodeError
  | KeyError string
  | TypeError
  | ValueError
  | AttributeError
  | IndexError
  | ConnectionError
  | HTTPError int
  | JSONDecodeError
  | OSError

text \<open>\<^verbatim>\<open>d[k]\<close>, \<^verbatim>\<open>d.get(k, default)\<close> and \<^verbatim>\<open>d[k] = v\<close>.\<close>

definition dict_item :: "dict \<Rightarrow> string \<Rightarrow> error + json" where
  "dict_item d k = (case map_of d k of None \<Rightarrow> Inl (KeyError k) | Some v \<Rightarrow> Inr v)"

definition dict_get :: "dict \<Rightarrow> string \<Rightarrow> json \<Rightarrow> json" where
  "dict_get d k dflt = (case map_of d k of None \<Rightarrow> dflt | Some v \<Rightarrow> v)"

definition dict_set :: "dict \<Rightarrow> string \<Rightarrow> json \<Rightarrow> dict" where
  "dict_set d k v = AList.update k v d"

text \<open>Python's truth value of an object.\<close>

fun truthy :: "json \<Rightarrow> bool" where
  "truthy JNull = False"
| "truthy (JBool b) = b"
| "truthy (JNum x) = (x \<noteq> 0)"
| "truthy (JStr s) = (s \<noteq> [])"
| "truthy (JArr xs) = (xs \<noteq> [])"
| "truthy (JObj kvs) = (kvs \<noteq> [])"

text \<open>
  Arithmetic and comparison with a float on the right: defined for numbers (and for
  booleans, which are integers in Python), \<^verbatim>\<open>TypeError\<close> otherwise.
\<close>

fun number_of :: "json \<Rightarrow> error + real" where
  "number_of (JNum x) = Inr x"
| "number_of (JBool b) = Inr (if b then 1 else 0)"
| "number_of JNull = Inl TypeError"
| "number_of (JStr s) = Inl TypeError"
| "number_of (JArr xs) = Inl TypeError"
| "number_of (JObj kvs) = Inl TypeError"

definition true_div :: "json \<Rightarrow> real \<Rightarrow> error + real" where
  "true_div v c = (case number_of v of Inl e \<Rightarrow> Inl e | Inr x \<Rightarrow> Inr (x / c))"

definition times_float :: "json \<Rightarrow> real \<Rightarrow> error + real" where
  "times_float v c = (case number_of v of Inl e \<Rightarrow> Inl e | Inr x \<Rightarrow> Inr (x * c))"

definition less_float :: "json \<Rightarrow> real \<Rightarrow> error + bool" where
  "less_float v c = (case number_of v of Inl e \<Rightarrow> Inl e | Inr x \<Rightarrow> Inr (x < c))"

text \<open>Python's \<^verbatim>\<open>max(a, b)\<close>: the first argument unless the second is greater.\<close>

definition py_max :: "real \<Rightarrow> real \<Rightarrow> real" where
  "py_max a b = (if b > a then b else a)"

text \<open>
  What a widget shows. The fixed-point rendering \<^verbatim>\<open>f'{x:.nf}'\<close> of a number is kept
  as the number with its precision; \<open>NaNText\<close> is the rendering of a NaN.
\<close>

datatype shown =
    Fixed nat real
  | NaNText
  | Integer int
  | Text string

text \<open>\<^verbatim>\<open>f'{v:.nf}'\<close> for a value read from JSON.\<close>

fun format_fixed :: "nat \<Rightarrow> json \<Rightarrow> error + shown" where
  "format_fixed n (JNum x) = Inr (Fixed n x)"
| "format_fixed n (JBool b) = Inr (Fixed n (if b then 1 else 0))"
| "format_fixed n JNull = Inl TypeError"
| "format_fixed n (JStr s) = Inl ValueError"
| "format_fixed n (JArr xs) = Inl TypeError"
| "format_fixed n (JObj kvs) = Inl TypeError"

subsection \<open>The world outside the script\<close>

text \<open>
  The configuration file is absent, unparsable or holds a table. An HTTP request either
  gets no response (a network error) or a status and a body, which is decoded JSON or
  nothing decodable.
\<close>

datatype config_file = Absent | Malformed | Toml dict

datatype 'a response = NoResponse | Response int "'a option"

text \<open>
  A row of the activity list, with the columns the page reads, each present in every row.
  In the data frame \<^verbatim>\<open>distance\<close> and \<^verbatim>\<open>average_speed\<close> are float columns and
  \<^verbatim>\<open>moving_time\<close>, whole seconds, is a 64-bit integer column: its sum wraps around.
\<close>

record summary =
  activity_id :: int
  activity_type :: string
  distance :: real
  moving_time :: "64 word"
  average_speed :: real

text \<open>
  What \<^verbatim>\<open>save_config\<close> meets: \<^verbatim>\<open>open('config.toml', 'w')\<close> fails and the file
  stays as it was; or the file is opened, which empties it, and then either the
  \<^verbatim>\<open>toml\<close> encoder raises, or the write fails and leaves some content behind, or the
  file ends up holding the given table.
\<close>

datatype save_outcome =
    OpenFails error
  | DumpFails error
  | WriteFails error config_file
  | Saved dict

text \<open>
  One page load: the file as found, the clock (\<^verbatim>\<open>time.time()\<close> and
  \<^verbatim>\<open>datetime.now()\<close>), the answer of each endpoint to the request the page sends
  it, what saving a configuration meets, and the \<^verbatim>\<open>polyline\<close> library's decoder.
\<close>

record world =
  config_toml :: config_file
  time_now :: real
  today_now :: datetime
  token_response :: "dict response"
  toml_save :: "dict \<Rightarrow> save_outcome"
  activities_response :: "summary list response"
  activity_response :: "int \<Rightarrow> dict response"
  polyline_decode :: "json \<Rightarrow> error + (real \<times> real) list"

record chart_row =
  label :: string
  segment :: string
  kms :: real

datatype event =
    SetPageConfig string
  | Title string
  | StError string
  | StErrorExc string error
  | Spinner string
  | Success string
  | Info string
  | Subheader json
  | Columns nat
  | Metric string shown
  | AltairChart "chart_row list"
  | StMap "(real \<times> real) list"
  | PydeckChart "(real \<times> real) list" "real option" "real option"
  | Expander string
  | StJson dict
  | PostToken dict
  | TruncateConfig
  | WriteConfig dict
  | GetActivities json int int int
  | GetActivity int json
  | PolylineDecode json

text \<open>
  How a stretch of the script ends: it runs on (\<open>Done\<close>), it calls \<^verbatim>\<open>st.stop()\<close>,
  or an exception leaves it uncaught.
\<close>

datatype outcome = Done | Stopped | Crashed error

type_synonym run = "event list \<times> outcome"

definition after :: "event list \<Rightarrow> run \<Rightarrow> run" where
  "after evs r = (evs @ fst r, snd r)"

definition then_run :: "run \<Rightarrow> run \<Rightarrow> run" where
  "then_run r1 r2 = (if snd r1 = Done then after (fst r1) r2 else r1)"

subsection \<open>Configuration and token refresh\<close>

definition load_config :: "config_file \<Rightarrow> error + dict" where
  "load_config f =
     (case f of
        Absent \<Rightarrow> Inl FileNotFoundError
      | Malformed \<Rightarrow> Inl TomlDecodeError
      | Toml cfg \<Rightarrow> Inr cfg)"

text \<open>The configuration object in memory, which \<^verbatim>\<open>refresh_token\<close> mutates in place,
  and the file on disk, which \<^verbatim>\<open>save_config\<close> overwrites.\<close>

record store =
  memory :: dict
  disk :: config_file

text \<open>An emptied file parses as the empty table.\<close>

definition save_config ::
  "(dict \<Rightarrow> save_outcome) \<Rightarrow> store \<Rightarrow> event list \<times> error option \<times> store" where
  "save_config save st =
     (case save (memory st) of
        OpenFails e \<Rightarrow> ([], Some e, st)
      | DumpFails e \<Rightarrow> ([TruncateConfig], Some e, st\<lparr>disk := Toml []\<rparr>)
      | WriteFails e left \<Rightarrow> ([TruncateConfig], Some e, st\<lparr>disk := left\<rparr>)
      | Saved written \<Rightarrow>
          ([TruncateConfig, WriteConfig written], None, st\<lparr>disk := Toml written\<rparr>))"

text \<open>\<^verbatim>\<open>Response.raise_for_status\<close> of the \<^verbatim>\<open>requests\<close> library raises for the
  client and server error statuses, 400 to 599, and for no other.\<close>

definition raise_for_status :: "int \<Rightarrow> error option" where
  "raise_for_status status =
     (if 400 \<le> status \<and> status < 500 then Some (HTTPError status)
      else if 500 \<le> status \<and> status < 600 then Some (HTTPError status)
      else None)"

text \<open>
  \<^verbatim>\<open>refresh_token\<close> returns the events it caused, the exception or the returned
  configuration, and the store as it leaves it: an exception raised between two
  assignments leaves the earlier assignment in place, and one raised while saving leaves
  all three.
\<close>

definition refresh_token ::
  "(dict \<Rightarrow> save_outcome) \<Rightarrow> dict response \<Rightarrow> store
     \<Rightarrow> event list \<times> (error + dict) \<times> store" where
  "refresh_token save resp st =
     (case dict_item (memory st) ''client_id'' of
        Inl e \<Rightarrow> ([], Inl e, st)
      | Inr client_id \<Rightarrow>
     (case dict_item (memory st) ''client_secret'' of
        Inl e \<Rightarrow> ([], Inl e, st)
      | Inr client_secret \<Rightarrow>
     (case dict_item (memory st) ''refresh_token'' of
        Inl e \<Rightarrow> ([], Inl e, st)
      | Inr old_refresh \<Rightarrow>
     (let post = PostToken [(''client_id'', client_id), (''client_secret'', client_secret),
                            (''refresh_token'', old_refresh),
                            (''grant_type'', JStr ''refresh_token'')]
      in case resp of
        NoResponse \<Rightarrow> ([post], Inl ConnectionError, st)
      | Response status body \<Rightarrow>
     (case raise_for_status status of
        Some e \<Rightarrow> ([post], Inl e, st)
      | None \<Rightarrow>
     (case body of
        None \<Rightarrow> ([post], Inl JSONDecodeError, st)
      | Some js \<Rightarrow>
     (case dict_item js ''access_token'' of
        Inl e \<Rightarrow> ([post], Inl e, st)
      | Inr new_access \<Rightarrow>
     (let st1 = st\<lparr>memory := dict_set (memory st) ''access_token'' new_access\<rparr>
      in case dict_item js ''refresh_token'' of
        Inl e \<Rightarrow> ([post], Inl e, st1)
      | Inr new_refresh \<Rightarrow>
     (let st2 = st1\<lparr>memory := dict_set (memory st1) ''refresh_token'' new_refresh\<rparr>
      in case dict_item js ''expires_at'' of
        Inl e \<Rightarrow> ([post], Inl e, st2)
      | Inr new_expiry \<Rightarrow>
     (let st3 = st2\<lparr>memory := dict_set (memory st2) ''expires_at'' new_expiry\<rparr>;
          saved = save_config save st3
      in case fst (snd saved) of
           Some e \<Rightarrow> (post # fst saved, Inl e, snd (snd saved))
         | None \<Rightarrow> (post # fst saved, Inr (memory (snd (snd saved))), snd (snd saved))))))))))))"

subsection \<open>Fetching activities\<close>

text \<open>Both fetchers send one GET with the bearer token, raise on an error status and
  decode the body.\<close>

definition http_json :: "'a response \<Rightarrow> error + 'a" where
  "http_json resp =
     (case resp of
        NoResponse \<Rightarrow> Inl ConnectionError
      | Response status body \<Rightarrow>
          (case raise_for_status status of
             Some e \<Rightarrow> Inl e
           | None \<Rightarrow> (case body of None \<Rightarrow> Inl JSONDecodeError | Some v \<Rightarrow> Inr v)))"

definition get_activities ::
  "summary list response \<Rightarrow> json \<Rightarrow> int \<Rightarrow> event list \<times> (error + summary list)" where
  "get_activities resp access_token per_page =
     ([GetActivities access_token per_page 1 1767225600], http_json resp)"

definition get_activity ::
  "(int \<Rightarrow> dict response) \<Rightarrow> int \<Rightarrow> json \<Rightarrow> event list \<times> (error + dict)" where
  "get_activity endpoint aid access_token =
     ([GetActivity aid access_token], http_json (endpoint aid))"

subsection \<open>The pandas operations the page uses\<close>

text \<open>
  \<^verbatim>\<open>Series.sum\<close> of an empty column is 0, and of a 64-bit integer column it is
  computed in 64-bit arithmetic; \<^verbatim>\<open>Series.mean\<close> of an empty column is a
  NaN, here \<open>None\<close>; \<^verbatim>\<open>.iloc[0]\<close> of an empty frame raises \<^verbatim>\<open>IndexError\<close>.
\<close>

definition series_sum :: "real list \<Rightarrow> real" where
  "series_sum xs = sum_list xs"

definition series_sum_int64 :: "64 word list \<Rightarrow> 64 word" where
  "series_sum_int64 xs = sum_list xs"

definition series_mean :: "real list \<Rightarrow> real option" where
  "series_mean xs = (if xs = [] then None else Some (sum_list xs / real (length xs)))"

definition iloc0 :: "'a list \<Rightarrow> error + 'a" where
  "iloc0 rows = (case rows of [] \<Rightarrow> Inl IndexError | r # _ \<Rightarrow> Inr r)"

definition is_run :: "summary \<Rightarrow> bool" where
  "is_run a = (activity_type a = ''Run'')"

subsection \<open>Statistics and widgets of \<^verbatim>\<open>main\<close>\<close>

text \<open>The key stats of the latest run, lines 107 to 112.\<close>

record stats =
  distance_km :: real
  moving_min :: real
  elapsed_min :: real
  avg_kmh :: "real option"
  elev :: json

definition avg_kmh_of :: "dict \<Rightarrow> error + real option" where
  "avg_kmh_of activity =
     (let avg_pace = dict_get activity ''average_speed'' JNull
      in if truthy avg_pace
         then (case times_float avg_pace 3.6 of Inl e \<Rightarrow> Inl e | Inr v \<Rightarrow> Inr (Some v))
         else Inr None)"

definition key_stats :: "dict \<Rightarrow> error + stats" where
  "key_stats activity =
     (case true_div (dict_get activity ''distance'' (JNum 0)) 1000 of
        Inl e \<Rightarrow> Inl e
      | Inr dkm \<Rightarrow>
     (case true_div (dict_get activity ''moving_time'' (JNum 0)) 60 of
        Inl e \<Rightarrow> Inl e
      | Inr moving \<Rightarrow>
     (case true_div (dict_get activity ''elapsed_time'' (JNum 0)) 60 of
        Inl e \<Rightarrow> Inl e
      | Inr elapsed \<Rightarrow>
     (case avg_kmh_of activity of
        Inl e \<Rightarrow> Inl e
      | Inr kmh \<Rightarrow>
          Inr \<lparr>distance_km = dkm, moving_min = moving, elapsed_min = elapsed, avg_kmh = kmh,
               elev = dict_get activity ''total_elevation_gain'' (JNum 0)\<rparr>))))"

text \<open>\<^verbatim>\<open>f'{avg_kmh:.2f}' if avg_kmh else 'N/A'\<close>, line 130.\<close>

definition avg_speed_shown :: "real option \<Rightarrow> shown" where
  "avg_speed_shown kmh =
     (case kmh of
        None \<Rightarrow> Text ''N/A''
      | Some v \<Rightarrow> if v \<noteq> 0 then Fixed 2 v else Text ''N/A'')"

text \<open>The year-to-date block, lines 115 to 122, over the rows of type Run.\<close>

definition running_distance_year_km :: "summary list \<Rightarrow> real" where
  "running_distance_year_km running_activities =
     series_sum (map distance running_activities) / 1000"

definition year_to_date_stats :: "summary list \<Rightarrow> event list" where
  "year_to_date_stats running_activities =
     [Subheader (JStr ''Year-to-date Running stats''),
      Columns 4,
      Metric ''Distance (km)'' (Fixed 2 (running_distance_year_km running_activities)),
      Metric ''Moving time (min)''
        (Fixed 0 (real_of_int (sint (series_sum_int64 (map moving_time running_activities))) / 60)),
      Metric ''Avg pace (km/h)''
        (case series_mean (map average_speed running_activities) of
           None \<Rightarrow> NaNText
         | Some m \<Rightarrow> Fixed 2 (m * 3.6)),
      Metric ''Total Activities'' (Integer (int (length running_activities)))]"

text \<open>The latest-run block, lines 124 to 131. The elevation is formatted last, after the
  first three metrics are on the page.\<close>

definition latest_run_summary :: "dict \<Rightarrow> stats \<Rightarrow> run" where
  "latest_run_summary activity ks =
     after
       [Subheader (JStr ''Latest Run Summary''),
        Subheader (dict_get activity ''name'' (JStr ''Activity'')),
        Columns 4,
        Metric ''Distance (km)'' (Fixed 2 (distance_km ks)),
        Metric ''Moving time (min)'' (Fixed 0 (moving_min ks)),
        Metric ''Avg speed (km/h)'' (avg_speed_shown (avg_kmh ks))]
       (case format_fixed 0 (elev ks) of
          Inl e \<Rightarrow> ([], Crashed e)
        | Inr s \<Rightarrow> ([Metric ''Elevation (m)'' s], Done))"

text \<open>The two rows of the stacked bar, lines 133 to 136.\<close>

definition chart_df :: "real \<Rightarrow> real \<Rightarrow> chart_row list" where
  "chart_df current_target_km running_km =
     [\<lparr>label = ''YTD'', segment = ''Actual'', kms = running_km\<rparr>,
      \<lparr>label = ''YTD'', segment = ''Target'', kms = py_max 0 (current_target_km - running_km)\<rparr>]"

text \<open>
  The route, lines 146 to 166. \<^verbatim>\<open>activity.get('map', {}).get('polyline')\<close> needs the
  value under \<^verbatim>\<open>map\<close> to be a dictionary; any other value has no \<^verbatim>\<open>get\<close>.
\<close>

definition route_section :: "(json \<Rightarrow> error + (real \<times> real) list) \<Rightarrow> dict \<Rightarrow> run" where
  "route_section decode activity =
     (case dict_get activity ''map'' (JObj []) of
        JObj m \<Rightarrow>
          (let route_poly = dict_get m ''polyline'' JNull
           in if truthy route_poly
              then after [PolylineDecode route_poly]
                (case decode route_poly of
                   Inl e \<Rightarrow> ([], Crashed e)
                 | Inr coords \<Rightarrow>
                     ([Subheader (JStr ''Route''),
                       StMap coords,
                       PydeckChart coords (series_mean (map fst coords)) (series_mean (map snd coords))],
                      Done))
              else ([Info ''No GPS route (polyline) available for this activity.''], Done))
      | JNull \<Rightarrow> ([], Crashed AttributeError)
      | JBool b \<Rightarrow> ([], Crashed AttributeError)
      | JNum x \<Rightarrow> ([], Crashed AttributeError)
      | JStr s \<Rightarrow> ([], Crashed AttributeError)
      | JArr xs \<Rightarrow> ([], Crashed AttributeError))"

text \<open>Lines 103 to 169: everything after the two fetches.\<close>

definition dashboard ::
  "datetime \<Rightarrow> (json \<Rightarrow> error + (real \<times> real) list) \<Rightarrow> summary list \<Rightarrow> summary list \<Rightarrow> dict \<Rightarrow> run" where
  "dashboard today decode activities running_activities activity =
     (let current_target_km = calculate_target_km today;
          distance_year_km = series_sum (map distance activities) / 1000
      in case key_stats activity of
           Inl e \<Rightarrow> ([], Crashed e)
         | Inr ks \<Rightarrow>
             then_run (year_to_date_stats running_activities, Done)
            (then_run (latest_run_summary activity ks)
            (then_run ([AltairChart (chart_df current_target_km
                                       (running_distance_year_km running_activities))], Done)
            (then_run (route_section decode activity)
                      ([Expander ''Raw activity JSON'', StJson activity], Done)))))"

subsection \<open>\<^verbatim>\<open>main\<close>\<close>

text \<open>The page title holds an em dash, three bytes in UTF-8.\<close>

definition page_title :: string where
  "page_title = ''Strava '' @ [CHR 0xE2, CHR 0x80, CHR 0x94] @ '' Last Activity''"

text \<open>Lines 87 to 169. Only the list fetch is inside a \<^verbatim>\<open>try\<close>; an exception of
  \<^verbatim>\<open>.iloc[0]\<close> or of \<^verbatim>\<open>get_activity\<close> is not caught.\<close>

definition fetch_and_render :: "world \<Rightarrow> dict \<Rightarrow> run" where
  "fetch_and_render w cfg =
     (case dict_item cfg ''access_token'' of
        Inl e \<Rightarrow> ([StErrorExc ''Failed to fetch activities: '' e], Stopped)
      | Inr access_token \<Rightarrow>
          (let fetched = get_activities (activities_response w) access_token 30
           in after (fst fetched)
             (case snd fetched of
                Inl e \<Rightarrow> ([StErrorExc ''Failed to fetch activities: '' e], Stopped)
              | Inr activities \<Rightarrow>
                  if activities = [] then ([Info ''No activities found.''], Stopped)
                  else
                    (let running_activities = filter is_run activities
                     in case iloc0 running_activities of
                          Inl e \<Rightarrow> ([], Crashed e)
                        | Inr latest \<Rightarrow>
                            (let detail = get_activity (activity_response w)
                                            (activity_id latest) access_token
                             in after (fst detail)
                               (case snd detail of
                                  Inl e \<Rightarrow> ([], Crashed e)
                                | Inr activity \<Rightarrow>
                                    dashboard (today_now w) (polyline_decode w)
                                      activities running_activities activity))))))"

text \<open>Lines 69 to 85, then the rest. \<^verbatim>\<open>refresh_token\<close> returns the object it was
  given, so the configuration used afterwards is the mutated one.\<close>

definition main :: "world \<Rightarrow> run" where
  "main w =
     after [SetPageConfig page_title, Title page_title]
       (case load_config (config_toml w) of
          Inl e \<Rightarrow>
            (if e = FileNotFoundError
             then ([StError ''config.yml not found in workspace root.''], Stopped)
             else ([], Crashed e))
        | Inr cfg \<Rightarrow>
            (case less_float (dict_get cfg ''expires_at'' (JNum 0)) (time_now w) of
               Inl e \<Rightarrow> ([], Crashed e)
             | Inr expired \<Rightarrow>
                 if expired
                 then
                   (let r = refresh_token (toml_save w) (token_response w)
                              \<lparr>memory = cfg, disk = config_toml w\<rparr>
                    in after (Spinner ''Refreshing access token...'' # fst r)
                      (case fst (snd r) of
                         Inl e \<Rightarrow> ([StErrorExc ''Token refresh failed: '' e], Stopped)
                       | Inr cfg' \<Rightarrow> after [Success ''Token refreshed''] (fetch_and_render w cfg')))
                 else fetch_and_render w cfg))"

subsection \<open>Reading a trace\<close>

text \<open>The authenticated calls are the two GET requests, which carry the access token.\<close>

fun authenticated :: "event \<Rightarrow> bool" where
  "authenticated (GetActivities tok per_page page after_ts) = True"
| "authenticated (GetActivity aid tok) = True"
| "authenticated e = False"

fun token_of :: "event \<Rightarrow> json option" where
  "token_of (GetActivities tok per_page page after_ts) = Some tok"
| "token_of (GetActivity aid tok) = Some tok"
| "token_of e = None"

text \<open>An event that is no authenticated call, or is one that carries the access token
  read from the given configuration lookup.\<close>

definition carries_token :: "error + json \<Rightarrow> event \<Rightarrow> bool" where
  "carries_token t e = (case token_of e of None \<Rightarrow> True | Some tok \<Rightarrow> t = Inr tok)"

text \<open>The events of the refresh path, lines 79 to 85 and \<^verbatim>\<open>refresh_token\<close>: the
  spinner, the POST to the token endpoint, the rewriting of the configuration file, and
  the message after either outcome.\<close>

fun refresh_event :: "event \<Rightarrow> bool" where
  "refresh_event (Spinner s) = True"
| "refresh_event (PostToken form) = True"
| "refresh_event TruncateConfig = True"
| "refresh_event (WriteConfig cfg) = True"
| "refresh_event (Success s) = True"
| "refresh_event (StErrorExc s e) = (s = ''Token refresh failed: '')"
| "refresh_event e = False"

fun is_metric :: "event \<Rightarrow> bool" where
  "is_metric (Metric name shown_value) = True"
| "is_metric e = False"

text \<open>The form \<^verbatim>\<open>refresh_token\<close> posts, when the configuration holds the three
  credentials.\<close>

definition token_request :: "dict \<Rightarrow> event option" where
  "token_request cfg =
     (case (map_of cfg ''client_id'', map_of cfg ''client_secret'', map_of cfg ''refresh_token'') of
        (Some client_id, Some client_secret, Some old_refresh) \<Rightarrow>
          Some (PostToken [(''client_id'', client_id), (''client_secret'', client_secret),
                           (''refresh_token'', old_refresh),
                           (''grant_type'', JStr ''refresh_token'')])
      | _ \<Rightarrow> None)"

subsection \<open>Reading an activity record\<close>




subsection \<open>Concrete page loads\<close>

text \<open>A configuration whose token expires at 1700000000, an activity list with two runs
  and a ride, and the detail of the latest run, which carries neither an average speed nor
  a map.\<close>

definition example_config :: dict where
  "example_config =
     [(''client_id'', JStr ''12345''), (''client_secret'', JStr ''s3cret''),
      (''refresh_token'', JStr ''r0''), (''access_token'', JStr ''a0''),
      (''expires_at'', JNum 1700000000)]"

definition example_token_body :: dict where
  "example_token_body =
     [(''access_token'', JStr ''a1''), (''refresh_token'', JStr ''r1''),
      (''expires_at'', JNum 1700021600)]"

definition run_5k :: summary where
  "run_5k = \<lparr>activity_id = 11, activity_type = ''Run'', distance = 5000, moving_time = 1500,
             average_speed = 3\<rparr>"

definition run_10k :: summary where
  "run_10k = \<lparr>activity_id = 12, activity_type = ''Run'', distance = 10000, moving_time = 3300,
              average_speed = 4\<rparr>"

definition ride_20k :: summary where
  "ride_20k = \<lparr>activity_id = 13, activity_type = ''Ride'', distance = 20000, moving_time = 3600,
               average_speed = 5\<rparr>"

text \<open>Two runs whose moving times add up to \<open>2 ^ 63\<close> seconds.\<close>

definition run_long :: summary where
  "run_long = \<lparr>activity_id = 14, activity_type = ''Run'', distance = 5000,
               moving_time = 4611686018427387904, average_speed = 3\<rparr>"

definition example_activity :: dict where
  "example_activity =
     [(''name'', JStr ''Morning Run''), (''distance'', JNum 5000), (''moving_time'', JNum 1500),
      (''elapsed_time'', JNum 1600), (''total_elevation_gain'', JNum 42)]"

definition example_world :: world where
  "example_world =
     \<lparr>config_toml = Toml example_config,
      time_now = 1690000000,
      today_now = \<lparr>year = 2026, month = 7, day = 1, hour = 9, minute = 30, second = 0,
                   microsecond = 0\<rparr>,
      token_response = Response 200 (Some example_token_body),
      toml_save = Saved,
      activities_response = Response 200 (Some [run_5k, ride_20k, run_10k]),
      activity_response = (\<lambda>aid. Response 200 (Some example_activity)),
      polyline_decode = (\<lambda>p. Inr [])\<rparr>"


section \<open>Properties\<close>

lemmas model_defs = main_def fetch_and_render_def dashboard_def after_def then_run_def
  load_config_def less_float_def dict_get_def dict_item_def dict_set_def refresh_token_def
  raise_for_status_def save_config_def http_json_def get_activities_def get_activity_def
  iloc0_def is_run_def key_stats_def avg_kmh_of_def true_div_def times_float_def
  year_to_date_stats_def latest_run_summary_def route_section_def chart_df_def
  running_distance_year_km_def series_sum_def series_sum_int64_def series_mean_def
  avg_speed_shown_def py_max_def

lemmas example_defs = example_world_def example_config_def example_token_body_def
  run_5k_def run_10k_def ride_20k_def run_long_def example_activity_def

subsection \<open>The year-to-date target\<close>

lemma days_time_of_day:
  assumes "valid_time h mi s us"
  shows "days (new_timedelta d (s + mi * 60 + h * 3600 - 0) (us - 0)) = d"
  using assms unfolding valid_time_def new_timedelta_def Let_def
  by simp

lemma days_before_month_sum:
  assumes "1 \<le> m" "m \<le> 12"
  shows "days_before_month y m = sum_list (map (days_in_month y) [1 .. m - 1])"
proof -
  from assms consider "m = 1" | "m = 2" | "m = 3" | "m = 4" | "m = 5" | "m = 6"
    | "m = 7" | "m = 8" | "m = 9" | "m = 10" | "m = 11" | "m = 12"
    by atomize_elim presburger
  then show ?thesis
    by cases
      (simp_all add: days_before_month_def DAYS_BEFORE_MONTH_def days_in_month_def upto.simps)
qed

lemma days_between_eq:
  "days (datetime_sub (datetime_ymd y 12 31) (datetime_ymd y 1 1)) = days_in_year y - 1"
  by (simp add: datetime_sub_def datetime_ymd_def new_timedelta_def toordinal_def ymd2ord_def
      days_before_month_def DAYS_BEFORE_MONTH_def days_in_year_def)

lemma days_passed_eq:
  assumes "valid_datetime t"
  shows "days (datetime_sub t (datetime_ymd (year t) 1 1)) = days_elapsed_since_jan1 t"
proof -
  have vt: "valid_time (hour t) (minute t) (second t) (microsecond t)"
    and m: "1 \<le> month t" "month t \<le> 12"
    using assms by (simp_all add: valid_datetime_def)
  have "days (datetime_sub t (datetime_ymd (year t) 1 1))
      = toordinal t - toordinal (datetime_ymd (year t) 1 1)"
    using days_time_of_day [OF vt] by (simp add: datetime_sub_def datetime_ymd_def)
  also have "\<dots> = days_before_month (year t) (month t) + day t - 1"
    by (simp add: toordinal_def ymd2ord_def datetime_ymd_def days_before_month_def
        DAYS_BEFORE_MONTH_def)
  also have "\<dots> = days_elapsed_since_jan1 t"
    by (simp add: days_before_month_sum [OF m] days_elapsed_since_jan1_def)
  finally show ?thesis .
qed

text \<open>
  C1, as the code has it. For every current date and time of day, the target is
  \<open>2000 * (days elapsed since January 1) / (days from January 1 to December 31)\<close>, where
  the denominator is the difference of the two dates, one less than the number of days
  of the year: 364 in a common year, 365 in a leap year. Only the calendar date enters.
\<close>

theorem calculate_target_km_formula:
  assumes "valid_datetime now"
  shows "calculate_target_km now =
     2000 * real_of_int (days_elapsed_since_jan1 now) / real_of_int (days_in_year (year now) - 1)"
  unfolding calculate_target_km_def Let_def
  by (simp add: days_between_eq days_passed_eq [OF assms])

theorem calculate_target_km_formula_witness:
  "valid_datetime \<lparr>year = 2024, month = 3, day = 1, hour = 13, minute = 5, second = 59,
                    microsecond = 7\<rparr> \<and>
   calculate_target_km \<lparr>year = 2024, month = 3, day = 1, hour = 13, minute = 5, second = 59,
                         microsecond = 7\<rparr>
     = 2000 * 60 / 365"
proof -
  let ?t = "\<lparr>year = 2024, month = 3, day = 1, hour = 13, minute = 5, second = 59,
             microsecond = 7\<rparr>"
  have v: "valid_datetime ?t"
    by (simp add: valid_datetime_def valid_time_def days_in_month_def)
  have e: "days_elapsed_since_jan1 ?t = 60"
    by (simp add: days_elapsed_since_jan1_def days_in_month_def is_leap_def upto.simps)
  have y: "days_in_year 2024 = 366" by (simp add: days_in_year_def is_leap_def)
  show ?thesis using v calculate_target_km_formula [OF v] by (simp add: e y)
qed

text \<open>
  C1, as the claim words it, fails: with the number of days of the year (365 in 2025) as
  the denominator the target on 31 December 2025 would be \<open>2000 * 364 / 365\<close>; the code
  returns 2000.
\<close>

theorem calculate_target_km_inclusive_counterexample:
  "calculate_target_km \<lparr>year = 2025, month = 12, day = 31, hour = 0, minute = 0, second = 0,
                         microsecond = 0\<rparr>
     \<noteq> spec_target_inclusive \<lparr>year = 2025, month = 12, day = 31, hour = 0, minute = 0,
                               second = 0, microsecond = 0\<rparr>"
  by (simp add: calculate_target_km_def datetime_sub_def new_timedelta_def toordinal_def
      ymd2ord_def days_before_month_def DAYS_BEFORE_MONTH_def is_leap_def datetime_ymd_def
      Let_def spec_target_inclusive_def days_elapsed_since_jan1_def days_in_year_def
      days_in_month_def upto.simps)

text \<open>
  C6. In every year and at every time of day, the target on January 1 is 0 and the target
  on December 31 is the full annual target, 2000.
\<close>

theorem calculate_target_km_endpoints:
  assumes "valid_time h mi s us"
  shows "calculate_target_km \<lparr>year = y, month = 1, day = 1, hour = h, minute = mi, second = s,
                               microsecond = us\<rparr> = 0
       \<and> calculate_target_km \<lparr>year = y, month = 12, day = 31, hour = h, minute = mi,
                               second = s, microsecond = us\<rparr> = 2000"
proof -
  have cases: "days_in_year y = 365 \<or> days_in_year y = 366" by (simp add: days_in_year_def)
  have a: "days (datetime_sub \<lparr>year = y, month = 1, day = 1, hour = h, minute = mi, second = s,
                               microsecond = us\<rparr> (datetime_ymd y 1 1)) = 0"
    using days_time_of_day [OF assms] by (simp add: datetime_sub_def datetime_ymd_def toordinal_def)
  have b: "days (datetime_sub \<lparr>year = y, month = 12, day = 31, hour = h, minute = mi, second = s,
                               microsecond = us\<rparr> (datetime_ymd y 1 1)) = days_in_year y - 1"
    using days_time_of_day [OF assms]
    by (simp add: datetime_sub_def datetime_ymd_def toordinal_def ymd2ord_def
        days_before_month_def DAYS_BEFORE_MONTH_def days_in_year_def)
  show ?thesis
    using cases by (auto simp add: calculate_target_km_def days_between_eq a b)
qed

theorem calculate_target_km_endpoints_witness:
  "valid_time 23 59 59 999999 \<and>
   calculate_target_km \<lparr>year = 2026, month = 1, day = 1, hour = 23, minute = 59, second = 59,
                         microsecond = 999999\<rparr> = 0 \<and>
   calculate_target_km \<lparr>year = 2026, month = 12, day = 31, hour = 23, minute = 59, second = 59,
                         microsecond = 999999\<rparr> = 2000"
proof -
  have v: "valid_time 23 59 59 999999" by (simp add: valid_time_def)
  show ?thesis using v calculate_target_km_endpoints [OF v, of 2026] by simp
qed

subsection \<open>Sequencing of runs and the events of each stage\<close>

lemma after_simps: "fst (after evs r) = evs @ fst r" "snd (after evs r) = snd r"
  by (simp_all add: after_def)

lemma then_run_Done:
  "snd (then_run r1 r2) = Done \<longleftrightarrow> snd r1 = Done \<and> snd r2 = Done"
  by (auto simp add: then_run_def after_def)

lemma then_run_fst_Done:
  "snd r1 = Done \<Longrightarrow> fst (then_run r1 r2) = fst r1 @ fst r2"
  by (simp add: then_run_def after_def)

lemma then_run_fst_subset: "set (fst (then_run r1 r2)) \<subseteq> set (fst r1) \<union> set (fst r2)"
  by (auto simp add: then_run_def after_def)

lemma then_run_fst_superset: "set (fst r1) \<subseteq> set (fst (then_run r1 r2))"
  by (auto simp add: then_run_def after_def)

lemma dashboard_events_subset:
  "set (fst (dashboard td dec acts runs a)) \<subseteq>
     set (year_to_date_stats runs) \<union> (\<Union>ks. set (fst (latest_run_summary a ks)))
     \<union> {AltairChart (chart_df (calculate_target_km td) (running_distance_year_km runs))}
     \<union> set (fst (route_section dec a)) \<union> {Expander ''Raw activity JSON'', StJson a}"
proof (cases "key_stats a")
  case (Inl e)
  then show ?thesis by (simp add: dashboard_def)
next
  case (Inr ks)
  let ?y = "(year_to_date_stats runs, Done)"
  let ?l = "latest_run_summary a ks"
  let ?c = "([AltairChart (chart_df (calculate_target_km td) (running_distance_year_km runs))], Done)"
  let ?r = "route_section dec a"
  let ?x = "([Expander ''Raw activity JSON'', StJson a], Done)"
  have d: "dashboard td dec acts runs a = then_run ?y (then_run ?l (then_run ?c (then_run ?r ?x)))"
    by (simp add: dashboard_def Inr)
  have "set (fst (dashboard td dec acts runs a))
      \<subseteq> set (fst ?y) \<union> (set (fst ?l) \<union> (set (fst ?c) \<union> (set (fst ?r) \<union> set (fst ?x))))"
    unfolding d
    by (meson then_run_fst_subset Un_mono order_refl subset_trans)
  then show ?thesis by auto
qed

lemma dashboard_Done:
  assumes "snd (dashboard td dec acts runs a) = Done"
  shows "\<exists>ks post. key_stats a = Inr ks \<and>
          fst (dashboard td dec acts runs a) =
            year_to_date_stats runs @ fst (latest_run_summary a ks)
            @ [AltairChart (chart_df (calculate_target_km td) (running_distance_year_km runs))]
            @ post"
proof (cases "key_stats a")
  case (Inl e)
  with assms show ?thesis by (simp add: dashboard_def)
next
  case (Inr ks)
  let ?chart = "([AltairChart (chart_df (calculate_target_km td) (running_distance_year_km runs))], Done)"
  let ?tail = "then_run (route_section dec a) ([Expander ''Raw activity JSON'', StJson a], Done)"
  have d: "dashboard td dec acts runs a =
      then_run (year_to_date_stats runs, Done)
        (then_run (latest_run_summary a ks) (then_run ?chart ?tail))"
    by (simp add: dashboard_def Inr)
  from assms have l: "snd (latest_run_summary a ks) = Done"
    by (simp add: d then_run_Done)
  have "fst (dashboard td dec acts runs a) =
      year_to_date_stats runs @ fst (latest_run_summary a ks) @ fst ?chart @ fst ?tail"
    by (simp add: d then_run_fst_Done l)
  then show ?thesis using Inr by simp
qed

lemma fetch_and_render_Done:
  assumes "snd (fetch_and_render w cfg) = Done"
    and "activities_response w = Response status (Some activities)"
  shows "filter is_run activities \<noteq> [] \<and> (\<exists>tok a.
          fst (fetch_and_render w cfg) =
            [GetActivities tok 30 1 1767225600,
             GetActivity (activity_id (hd (filter is_run activities))) tok]
            @ fst (dashboard (today_now w) (polyline_decode w) activities
                         (filter is_run activities) a)
          \<and> snd (dashboard (today_now w) (polyline_decode w) activities
                         (filter is_run activities) a) = Done)"
  using assms
  by (auto simp add: fetch_and_render_def after_def Let_def get_activities_def get_activity_def
      http_json_def iloc0_def split: sum.splits if_splits option.splits list.splits)

lemma main_Done:
  assumes "snd (main w) = Done"
    and "activities_response w = Response status (Some activities)"
  shows "filter is_run activities \<noteq> [] \<and> (\<exists>pre a.
          fst (main w) =
            pre @ fst (dashboard (today_now w) (polyline_decode w) activities
                         (filter is_run activities) a)
          \<and> snd (dashboard (today_now w) (polyline_decode w) activities
                         (filter is_run activities) a) = Done)"
proof -
  let ?D = "\<lambda>a. dashboard (today_now w) (polyline_decode w) activities (filter is_run activities) a"
  from assms(1) obtain cfg pre0 where
    f: "snd (fetch_and_render w cfg) = Done" and
    e: "fst (main w) = pre0 @ fst (fetch_and_render w cfg)"
    by (auto simp add: main_def after_def Let_def split: sum.splits if_splits)
  from fetch_and_render_Done [OF f assms(2)] obtain tok a where
    ne: "filter is_run activities \<noteq> []" and
    g: "fst (fetch_and_render w cfg) =
        [GetActivities tok 30 1 1767225600,
         GetActivity (activity_id (hd (filter is_run activities))) tok] @ fst (?D a)" and
    d: "snd (?D a) = Done"
    by blast
  have "fst (main w) =
      (pre0 @ [GetActivities tok 30 1 1767225600,
               GetActivity (activity_id (hd (filter is_run activities))) tok]) @ fst (?D a)"
    by (simp add: e g)
  with d have "\<exists>pre a. fst (main w) = pre @ fst (?D a) \<and> snd (?D a) = Done"
    by blast
  with ne show ?thesis by simp
qed

lemma main_Done_events:
  assumes "snd (main w) = Done"
    and "activities_response w = Response status (Some activities)"
  shows "filter is_run activities \<noteq> [] \<and> (\<exists>pre mid post.
          fst (main w) =
            pre @ year_to_date_stats (filter is_run activities) @ mid
            @ [AltairChart (chart_df (calculate_target_km (today_now w))
                 (running_distance_year_km (filter is_run activities)))] @ post)"
proof -
  let ?runs = "filter is_run activities"
  let ?chart = "AltairChart (chart_df (calculate_target_km (today_now w))
                  (running_distance_year_km ?runs))"
  from main_Done [OF assms] obtain pre a where
    ne: "?runs \<noteq> []" and
    m: "fst (main w) = pre @ fst (dashboard (today_now w) (polyline_decode w) activities ?runs a)" and
    d: "snd (dashboard (today_now w) (polyline_decode w) activities ?runs a) = Done"
    by blast
  from dashboard_Done [OF d] obtain ks post where
    k: "fst (dashboard (today_now w) (polyline_decode w) activities ?runs a) =
       year_to_date_stats ?runs @ fst (latest_run_summary a ks) @ [?chart] @ post"
    by blast
  have "fst (main w) =
       pre @ year_to_date_stats ?runs @ fst (latest_run_summary a ks) @ [?chart] @ post"
    by (simp only: m k)
  then have "\<exists>pre mid post. fst (main w) = pre @ year_to_date_stats ?runs @ mid @ [?chart] @ post"
    by (intro exI)
  with ne show ?thesis by simp
qed

lemma year_to_date_stats_widgets:
  "e \<in> set (year_to_date_stats runs) \<Longrightarrow> \<not> refresh_event e \<and> token_of e = None"
  by (auto simp add: year_to_date_stats_def)

lemma latest_run_summary_widgets:
  "e \<in> set (fst (latest_run_summary a ks)) \<Longrightarrow> \<not> refresh_event e \<and> token_of e = None"
  by (auto simp add: latest_run_summary_def after_def split: sum.splits)

lemma route_section_widgets:
  "e \<in> set (fst (route_section dec a)) \<Longrightarrow> \<not> refresh_event e \<and> token_of e = None"
  by (auto simp add: route_section_def after_def Let_def split: sum.splits json.splits if_splits)

lemma dashboard_widgets:
  assumes "e \<in> set (fst (dashboard td dec acts runs a))"
  shows "\<not> refresh_event e \<and> token_of e = None"
proof -
  from assms dashboard_events_subset [of td dec acts runs a]
  consider "e \<in> set (year_to_date_stats runs)"
    | ks where "e \<in> set (fst (latest_run_summary a ks))"
    | "e = AltairChart (chart_df (calculate_target_km td) (running_distance_year_km runs))"
    | "e \<in> set (fst (route_section dec a))"
    | "e = Expander ''Raw activity JSON''" | "e = StJson a"
    by (auto simp del: fst_conv)
  then show ?thesis
    by cases (simp_all add: year_to_date_stats_widgets latest_run_summary_widgets
        route_section_widgets)
qed

lemma fetch_and_render_events:
  assumes "e \<in> set (fst (fetch_and_render w cfg))"
  shows "\<not> refresh_event e \<and> carries_token (dict_item cfg ''access_token'') e"
  using assms dashboard_widgets [of e "today_now w" "polyline_decode w"]
  by (auto simp add: fetch_and_render_def after_def Let_def get_activities_def get_activity_def
      carries_token_def split: sum.splits if_splits)

lemma refresh_token_events:
  assumes "e \<in> set (fst (refresh_token save resp st))"
  shows "refresh_event e \<and> \<not> authenticated e \<and> token_of e = None"
  using assms
  by (auto simp add: refresh_token_def save_config_def Let_def
      split: sum.splits response.splits option.splits save_outcome.splits)

lemma refresh_token_request:
  "(case token_request (memory st) of
      Some post \<Rightarrow> \<exists>rest. fst (refresh_token save resp st) = post # rest
    | None \<Rightarrow> fst (refresh_token save resp st) = [] \<and> isl (fst (snd (refresh_token save resp st))))"
  by (auto simp add: refresh_token_def token_request_def dict_item_def save_config_def Let_def
      split: sum.splits response.splits option.splits save_outcome.splits)

lemma refresh_token_returns:
  assumes "fst (snd (refresh_token save resp st)) = Inr cfg'"
  shows "cfg' = memory (snd (snd (refresh_token save resp st)))
       \<and> (\<exists>status js. resp = Response status (Some js)
            \<and> dict_item cfg' ''access_token'' = dict_item js ''access_token'')"
  using assms
  by (auto simp add: refresh_token_def save_config_def dict_item_def dict_set_def update_conv' Let_def
      split: sum.splits response.splits option.splits save_outcome.splits)

lemma dashboard_starts_with_stats:
  assumes "fst (dashboard td dec acts runs a) \<noteq> []"
  shows "\<exists>post. fst (dashboard td dec acts runs a) = year_to_date_stats runs @ post"
proof (cases "key_stats a")
  case (Inl e)
  with assms show ?thesis by (simp add: dashboard_def)
next
  case (Inr ks)
  then obtain rest where "dashboard td dec acts runs a = then_run (year_to_date_stats runs, Done) rest"
    by (simp add: dashboard_def)
  then show ?thesis by (simp add: then_run_fst_Done)
qed

lemma fetch_and_render_metric:
  assumes "Metric l v \<in> set (fst (fetch_and_render w cfg))"
    and "activities_response w = Response status (Some activities)"
  shows "filter is_run activities \<noteq> []
       \<and> (\<exists>pre post. fst (fetch_and_render w cfg)
             = pre @ year_to_date_stats (filter is_run activities) @ post)"
proof -
  let ?D = "\<lambda>a. dashboard (today_now w) (polyline_decode w) activities (filter is_run activities) a"
  from assms obtain tok a where
    ne: "filter is_run activities \<noteq> []" and
    f: "fst (fetch_and_render w cfg) =
          [GetActivities tok 30 1 1767225600,
           GetActivity (activity_id (hd (filter is_run activities))) tok] @ fst (?D a)" and
    m: "Metric l v \<in> set (fst (?D a))"
    by (auto simp add: fetch_and_render_def after_def Let_def get_activities_def get_activity_def
        http_json_def iloc0_def split: sum.splits if_splits option.splits list.splits)
  from m have "fst (?D a) \<noteq> []" by auto
  from dashboard_starts_with_stats [OF this] obtain post where
    "fst (?D a) = year_to_date_stats (filter is_run activities) @ post" by blast
  with f have "fst (fetch_and_render w cfg) =
      [GetActivities tok 30 1 1767225600,
       GetActivity (activity_id (hd (filter is_run activities))) tok]
      @ year_to_date_stats (filter is_run activities) @ post"
    by simp
  then have "\<exists>pre post. fst (fetch_and_render w cfg)
             = pre @ year_to_date_stats (filter is_run activities) @ post"
    by (intro exI)
  with ne show ?thesis by simp
qed

lemma main_metric_fetch:
  assumes "Metric l v \<in> set (fst (main w))"
  shows "\<exists>cfg pre. fst (main w) = pre @ fst (fetch_and_render w cfg)
          \<and> Metric l v \<in> set (fst (fetch_and_render w cfg))"
proof (cases "load_config (config_toml w)")
  case (Inl e)
  with assms show ?thesis by (simp add: main_def after_def split: if_splits)
next
  case cfg: (Inr cfg)
  show ?thesis
  proof (cases "less_float (dict_get cfg ''expires_at'' (JNum 0)) (time_now w)")
    case (Inl e)
    with assms cfg show ?thesis by (simp add: main_def after_def)
  next
    case (Inr expired)
    show ?thesis
    proof (cases expired)
      case False
      with cfg Inr have e: "fst (main w)
          = [SetPageConfig page_title, Title page_title] @ fst (fetch_and_render w cfg)"
        by (simp add: main_def after_def)
      with assms have "Metric l v \<in> set (fst (fetch_and_render w cfg))" by simp
      with e show ?thesis by blast
    next
      case True
      let ?r = "refresh_token (toml_save w) (token_response w)
                  \<lparr>memory = cfg, disk = config_toml w\<rparr>"
      have nr: "Metric l v \<notin> set (fst ?r)"
        using refresh_token_events [of "Metric l v" "toml_save w" "token_response w"] by auto
      show ?thesis
      proof (cases "fst (snd ?r)")
        case (Inl e)
        with assms cfg Inr True nr show ?thesis
          by (simp add: main_def after_def Let_def)
      next
        case new: (Inr cfg')
        with cfg Inr True have e: "fst (main w)
            = ([SetPageConfig page_title, Title page_title,
                Spinner ''Refreshing access token...''] @ fst ?r @ [Success ''Token refreshed''])
              @ fst (fetch_and_render w cfg')"
          by (simp add: main_def after_def Let_def)
        with assms nr have "Metric l v \<in> set (fst (fetch_and_render w cfg'))" by simp
        with e show ?thesis by blast
      qed
    qed
  qed
qed

lemma main_metric:
  assumes "Metric l v \<in> set (fst (main w))"
    and "activities_response w = Response status (Some activities)"
  shows "filter is_run activities \<noteq> []
       \<and> (\<exists>pre post. fst (main w) = pre @ year_to_date_stats (filter is_run activities) @ post)"
proof -
  from main_metric_fetch [OF assms(1)] obtain cfg pre0 where
    e: "fst (main w) = pre0 @ fst (fetch_and_render w cfg)" and
    m: "Metric l v \<in> set (fst (fetch_and_render w cfg))" by blast
  from fetch_and_render_metric [OF m assms(2)] obtain pre post where
    ne: "filter is_run activities \<noteq> []" and
    "fst (fetch_and_render w cfg) = pre @ year_to_date_stats (filter is_run activities) @ post"
    by blast
  with e have "fst (main w) = (pre0 @ pre) @ year_to_date_stats (filter is_run activities) @ post"
    by simp
  then have "\<exists>pre post. fst (main w) = pre @ year_to_date_stats (filter is_run activities) @ post"
    by (intro exI)
  with ne show ?thesis by simp
qed






subsection \<open>Token refresh\<close>

text \<open>
  C10, as the code has it. For every configuration, if the token endpoint responds with a
  client or server error status (400 to 599, the statuses for which
  \<^verbatim>\<open>raise_for_status\<close> raises), \<^verbatim>\<open>refresh_token\<close> raises, leaves the configuration in
  memory and the file on disk as they were, and neither opens nor writes the file.
\<close>

theorem refresh_token_failure_keeps_config:
  assumes "400 \<le> status" and "status < 600"
  shows "isl (fst (snd (refresh_token save (Response status body) st)))
       \<and> snd (snd (refresh_token save (Response status body) st)) = st
       \<and> TruncateConfig \<notin> set (fst (refresh_token save (Response status body) st))
       \<and> (\<forall>c. WriteConfig c \<notin> set (fst (refresh_token save (Response status body) st)))"
proof -
  from assms have r: "raise_for_status status = Some (HTTPError status)"
    by (auto simp add: raise_for_status_def)
  show ?thesis
    by (simp add: refresh_token_def r Let_def split: sum.splits)
qed

theorem refresh_token_failure_keeps_config_witness:
  "refresh_token Saved (Response 401 None) \<lparr>memory = example_config, disk = Toml example_config\<rparr>
     = ([PostToken [(''client_id'', JStr ''12345''), (''client_secret'', JStr ''s3cret''),
                    (''refresh_token'', JStr ''r0''), (''grant_type'', JStr ''refresh_token'')]],
        Inl (HTTPError 401),
        \<lparr>memory = example_config, disk = Toml example_config\<rparr>)"
proof -
  let ?st = "\<lparr>memory = example_config, disk = Toml example_config\<rparr>"
  have a: "fst (snd (refresh_token Saved (Response 401 None) ?st)) = Inl (HTTPError 401)"
    by (simp add: refresh_token_def raise_for_status_def dict_item_def example_config_def)
  have b: "fst (refresh_token Saved (Response 401 None) ?st)
     = [PostToken [(''client_id'', JStr ''12345''), (''client_secret'', JStr ''s3cret''),
                   (''refresh_token'', JStr ''r0''), (''grant_type'', JStr ''refresh_token'')]]"
    by (simp add: refresh_token_def raise_for_status_def dict_item_def example_config_def)
  have s: "(400::int) \<le> 401" "(401::int) < 600" by simp_all
  from refresh_token_failure_keeps_config [OF s, of Saved None ?st]
  have "snd (snd (refresh_token Saved (Response 401 None) ?st)) = ?st"
    by simp
  with a b show ?thesis by (simp add: prod_eq_iff)
qed

text \<open>
  C10, as the claim words it, fails for a status that is neither 2xx nor an error status:
  on a 302 whose body carries the three token fields nothing is raised, and the
  configuration is updated in memory and saved.
\<close>

theorem refresh_token_redirect_status_counterexample:
  "snd (refresh_token Saved (Response 302 (Some example_token_body))
          \<lparr>memory = example_config, disk = Toml example_config\<rparr>)
     = (Inr [(''client_id'', JStr ''12345''), (''client_secret'', JStr ''s3cret''),
             (''refresh_token'', JStr ''r1''), (''access_token'', JStr ''a1''),
             (''expires_at'', JNum 1700021600)],
        \<lparr>memory = [(''client_id'', JStr ''12345''), (''client_secret'', JStr ''s3cret''),
                    (''refresh_token'', JStr ''r1''), (''access_token'', JStr ''a1''),
                    (''expires_at'', JNum 1700021600)],
          disk = Toml [(''client_id'', JStr ''12345''), (''client_secret'', JStr ''s3cret''),
                       (''refresh_token'', JStr ''r1''), (''access_token'', JStr ''a1''),
                       (''expires_at'', JNum 1700021600)]\<rparr>)
   \<and> snd (snd (refresh_token Saved (Response 302 (Some example_token_body))
          \<lparr>memory = example_config, disk = Toml example_config\<rparr>))
     \<noteq> \<lparr>memory = example_config, disk = Toml example_config\<rparr>"
  by (simp add: refresh_token_def raise_for_status_def dict_item_def dict_set_def save_config_def
      example_config_def example_token_body_def Let_def)

subsection \<open>Loading the configuration\<close>

text \<open>
  C9. When the configuration file is absent, \<^verbatim>\<open>load_config\<close> fails with
  \<^verbatim>\<open>FileNotFoundError\<close>, and the page consists of its title and one error message,
  after which the render stops: no request is sent and no statistic is drawn.
\<close>

theorem main_config_absent:
  assumes "config_toml w = Absent"
  shows "load_config (config_toml w) = Inl FileNotFoundError
       \<and> main w = ([SetPageConfig page_title, Title page_title,
                    StError ''config.yml not found in workspace root.''], Stopped)"
  using assms by (simp add: main_def load_config_def after_def)

theorem main_config_absent_witness:
  "config_toml (example_world\<lparr>config_toml := Absent\<rparr>) = Absent
   \<and> main (example_world\<lparr>config_toml := Absent\<rparr>)
       = ([SetPageConfig page_title, Title page_title,
           StError ''config.yml not found in workspace root.''], Stopped)"
proof -
  have a: "config_toml (example_world\<lparr>config_toml := Absent\<rparr>) = Absent" by simp
  show ?thesis using a main_config_absent [OF a] by simp
qed

subsection \<open>An activity list without a run\<close>

text \<open>
  C3 does not hold of the code. With a token that is still valid and an activity list
  that holds one ride and no run, \<^verbatim>\<open>running_activities.iloc[0]\<close> raises
  \<^verbatim>\<open>IndexError\<close>, which nothing catches: the render ends there, before any
  statistic is drawn.
\<close>

theorem main_no_runs_crashes:
  "main (example_world\<lparr>activities_response := Response 200 (Some [ride_20k])\<rparr>)
     = ([SetPageConfig page_title, Title page_title,
         GetActivities (JStr ''a0'') 30 1 1767225600], Crashed IndexError)"
  by (simp add: model_defs example_defs Let_def)

text \<open>
  The same for every page load that reaches the fetch: a fetched list that is not empty
  and has no row of type Run ends in the uncaught \<^verbatim>\<open>IndexError\<close>.
\<close>

lemma fetch_and_render_without_runs:
  assumes "dict_item cfg ''access_token'' = Inr tok"
    and "http_json (activities_response w) = Inr activities"
    and "activities \<noteq> []" and "filter is_run activities = []"
  shows "fetch_and_render w cfg = ([GetActivities tok 30 1 1767225600], Crashed IndexError)"
  using assms
  by (simp add: fetch_and_render_def get_activities_def after_def iloc0_def Let_def)

subsection \<open>When the token is refreshed\<close>

text \<open>
  C2, as the code has it. Take any configuration that loads and whose \<^verbatim>\<open>expires_at\<close> is
  a number (0 when the key is missing), compared once with the clock on line 78.

  If it is less than the current time, the page shows the spinner and calls
  \<^verbatim>\<open>refresh_token\<close> before any authenticated call: the trace up to there is the page
  title, the spinner and the events of \<^verbatim>\<open>refresh_token\<close>, none of them an authenticated
  call, and the POST to the token endpoint is among them whenever the configuration holds
  the three credentials (otherwise nothing is sent and the call raises). If the call
  raises, the page shows the error and stops, with no authenticated call at all. If it
  returns, the page goes on with the configuration as mutated, whose access token is the
  one of the response, and every authenticated call carries that token.

  If it is greater than or equal to the current time, the page goes straight to the fetch
  with the stored configuration: no event of the refresh path occurs (no spinner, no POST,
  no opening or writing of the file), and every authenticated call carries the stored
  token.
\<close>

theorem refresh_iff_expired:
  assumes "config_toml w = Toml cfg"
    and "number_of (dict_get cfg ''expires_at'' (JNum 0)) = Inr expires_at"
  shows
    "(expires_at < time_now w \<longrightarrow>
        (let r = refresh_token (toml_save w) (token_response w)
                   \<lparr>memory = cfg, disk = config_toml w\<rparr>;
             upto_refresh = [SetPageConfig page_title, Title page_title,
                             Spinner ''Refreshing access token...''] @ fst r
         in list_all (\<lambda>e. \<not> authenticated e) upto_refresh
          \<and> (case token_request cfg of
                Some post \<Rightarrow> post \<in> set (fst r)
              | None \<Rightarrow> fst r = [] \<and> isl (fst (snd r)))
          \<and> (case fst (snd r) of
                Inl e \<Rightarrow>
                  main w = (upto_refresh @ [StErrorExc ''Token refresh failed: '' e], Stopped)
              | Inr cfg' \<Rightarrow>
                  main w = after (upto_refresh @ [Success ''Token refreshed''])
                             (fetch_and_render w cfg')
                  \<and> cfg' = memory (snd (snd r))
                  \<and> (\<exists>status js. token_response w = Response status (Some js)
                        \<and> dict_item cfg' ''access_token'' = dict_item js ''access_token'')
                  \<and> list_all (carries_token (dict_item cfg' ''access_token'')) (fst (main w)))))
   \<and> (time_now w \<le> expires_at \<longrightarrow>
        main w = after [SetPageConfig page_title, Title page_title] (fetch_and_render w cfg)
        \<and> list_all (\<lambda>e. \<not> refresh_event e) (fst (main w))
        \<and> list_all (carries_token (dict_item cfg ''access_token'')) (fst (main w)))"
proof (intro conjI impI)
  let ?r = "refresh_token (toml_save w) (token_response w) \<lparr>memory = cfg, disk = config_toml w\<rparr>"
  let ?upto = "[SetPageConfig page_title, Title page_title,
                Spinner ''Refreshing access token...''] @ fst ?r"
  assume x: "expires_at < time_now w"
  have quiet: "list_all (\<lambda>e. \<not> authenticated e) ?upto"
    using refresh_token_events [of _ "toml_save w" "token_response w"]
    by (auto simp add: list_all_iff)
  have req: "case token_request cfg of
               Some post \<Rightarrow> post \<in> set (fst ?r)
             | None \<Rightarrow> fst ?r = [] \<and> isl (fst (snd ?r))"
    using refresh_token_request [where st = "\<lparr>memory = cfg, disk = config_toml w\<rparr>"
        and save = "toml_save w" and resp = "token_response w"]
    by (auto simp add: token_request_def split: option.splits)
  have m: "main w = after ?upto
             (case fst (snd ?r) of
                Inl e \<Rightarrow> ([StErrorExc ''Token refresh failed: '' e], Stopped)
              | Inr cfg' \<Rightarrow> after [Success ''Token refreshed''] (fetch_and_render w cfg'))"
    using assms x by (simp add: main_def load_config_def less_float_def after_def Let_def)
  have out: "case fst (snd ?r) of
               Inl e \<Rightarrow> main w = (?upto @ [StErrorExc ''Token refresh failed: '' e], Stopped)
             | Inr cfg' \<Rightarrow>
                 main w = after (?upto @ [Success ''Token refreshed'']) (fetch_and_render w cfg')
                 \<and> cfg' = memory (snd (snd ?r))
                 \<and> (\<exists>status js. token_response w = Response status (Some js)
                       \<and> dict_item cfg' ''access_token'' = dict_item js ''access_token'')
                 \<and> list_all (carries_token (dict_item cfg' ''access_token'')) (fst (main w))"
  proof (cases "fst (snd ?r)")
    case (Inl e)
    then show ?thesis by (simp add: m after_def)
  next
    case (Inr cfg')
    have e: "main w = after (?upto @ [Success ''Token refreshed'']) (fetch_and_render w cfg')"
      by (simp add: m Inr after_def)
    have "carries_token (dict_item cfg' ''access_token'') ev" if "ev \<in> set (fst (main w))" for ev
    proof -
      from that consider "ev \<in> set ?upto" | "ev = Success ''Token refreshed''"
        | "ev \<in> set (fst (fetch_and_render w cfg'))"
        by (auto simp add: e after_def)
      then show ?thesis
      proof cases
        case 1
        then have "token_of ev = None"
          using refresh_token_events [of ev "toml_save w" "token_response w"] by auto
        then show ?thesis by (simp add: carries_token_def)
      next
        case 2
        then show ?thesis by (simp add: carries_token_def)
      next
        case 3
        then show ?thesis by (simp add: fetch_and_render_events)
      qed
    qed
    then have tok: "list_all (carries_token (dict_item cfg' ''access_token'')) (fst (main w))"
      by (simp add: list_all_iff)
    note rt = refresh_token_returns [OF Inr]
    show ?thesis
      unfolding Inr sum.case using e rt tok by (intro conjI) blast+
  qed
  show "let r = ?r; upto_refresh = [SetPageConfig page_title, Title page_title,
                             Spinner ''Refreshing access token...''] @ fst r
         in list_all (\<lambda>e. \<not> authenticated e) upto_refresh
          \<and> (case token_request cfg of
                Some post \<Rightarrow> post \<in> set (fst r)
              | None \<Rightarrow> fst r = [] \<and> isl (fst (snd r)))
          \<and> (case fst (snd r) of
                Inl e \<Rightarrow>
                  main w = (upto_refresh @ [StErrorExc ''Token refresh failed: '' e], Stopped)
              | Inr cfg' \<Rightarrow>
                  main w = after (upto_refresh @ [Success ''Token refreshed''])
                             (fetch_and_render w cfg')
                  \<and> cfg' = memory (snd (snd r))
                  \<and> (\<exists>status js. token_response w = Response status (Some js)
                        \<and> dict_item cfg' ''access_token'' = dict_item js ''access_token'')
                  \<and> list_all (carries_token (dict_item cfg' ''access_token'')) (fst (main w)))"
    unfolding Let_def using quiet req out by blast
next
  assume x: "time_now w \<le> expires_at"
  show m: "main w = after [SetPageConfig page_title, Title page_title] (fetch_and_render w cfg)"
    using assms x by (simp add: main_def load_config_def less_float_def)
  show "list_all (\<lambda>e. \<not> refresh_event e) (fst (main w))"
    using fetch_and_render_events [of _ w cfg]
    by (auto simp add: m after_def list_all_iff)
  show "list_all (carries_token (dict_item cfg ''access_token'')) (fst (main w))"
    using fetch_and_render_events [of _ w cfg]
    by (auto simp add: m after_def list_all_iff carries_token_def)
qed

theorem refresh_iff_expired_witness:
  "PostToken [(''client_id'', JStr ''12345''), (''client_secret'', JStr ''s3cret''),
              (''refresh_token'', JStr ''r0''), (''grant_type'', JStr ''refresh_token'')]
     \<in> set (fst (main (example_world\<lparr>time_now := 1700000001\<rparr>)))
   \<and> list_all (carries_token (Inr (JStr ''a1''))) (fst (main (example_world\<lparr>time_now := 1700000001\<rparr>)))
   \<and> list_all (\<lambda>e. \<not> refresh_event e) (fst (main example_world))
   \<and> list_all (carries_token (Inr (JStr ''a0''))) (fst (main example_world))"
proof -
  let ?late = "example_world\<lparr>time_now := 1700000001\<rparr>"
  let ?post = "PostToken [(''client_id'', JStr ''12345''), (''client_secret'', JStr ''s3cret''),
              (''refresh_token'', JStr ''r0''), (''grant_type'', JStr ''refresh_token'')]"
  let ?new = "[(''client_id'', JStr ''12345''), (''client_secret'', JStr ''s3cret''),
               (''refresh_token'', JStr ''r1''), (''access_token'', JStr ''a1''),
               (''expires_at'', JNum 1700021600)]"
  have c1: "config_toml ?late = Toml example_config"
    and c2: "config_toml example_world = Toml example_config"
    by (simp_all add: example_world_def)
  have n: "number_of (dict_get example_config ''expires_at'' (JNum 0)) = Inr 1700000000"
    by (simp add: dict_get_def example_config_def)
  have t1: "(1700000000::real) < time_now ?late" and t2: "time_now example_world \<le> 1700000000"
    by (simp_all add: example_world_def)
  have r: "refresh_token (toml_save ?late) (token_response ?late)
             \<lparr>memory = example_config, disk = config_toml ?late\<rparr>
           = ([?post, TruncateConfig, WriteConfig ?new], Inr ?new, \<lparr>memory = ?new, disk = Toml ?new\<rparr>)"
    by (simp add: refresh_token_def raise_for_status_def dict_item_def dict_set_def save_config_def
        example_defs Let_def)
  have q: "token_request example_config = Some ?post"
    by (simp add: token_request_def example_config_def)
  have a1: "dict_item ?new ''access_token'' = Inr (JStr ''a1'')"
    and a0: "dict_item example_config ''access_token'' = Inr (JStr ''a0'')"
    by (simp_all add: dict_item_def example_config_def)
  note inst = refresh_iff_expired [OF c1 n, unfolded Let_def r q fst_conv snd_conv sum.case
      option.case a1]
  from inst t1 have eq: "main ?late =
      after (([SetPageConfig page_title, Title page_title, Spinner ''Refreshing access token...'']
              @ [?post, TruncateConfig, WriteConfig ?new]) @ [Success ''Token refreshed''])
        (fetch_and_render ?late ?new)"
    by blast
  from inst t1 have late: "list_all (carries_token (Inr (JStr ''a1''))) (fst (main ?late))"
    by blast
  from refresh_iff_expired [OF c2 n] t2
  have fresh: "list_all (\<lambda>e. \<not> refresh_event e) (fst (main example_world))
      \<and> list_all (carries_token (Inr (JStr ''a0''))) (fst (main example_world))"
    unfolding a0 by blast
  from eq have "?post \<in> set (fst (main ?late))" by (simp add: after_def)
  with late fresh show ?thesis by simp
qed

text \<open>
  C2, as the claim words it, fails at the boundary: with \<^verbatim>\<open>expires_at\<close> equal to
  the current time no event of the refresh path occurs, and both authenticated calls are
  made with the stored token.
\<close>

theorem refresh_at_expiry_counterexample:
  "dict_get example_config ''expires_at'' (JNum 0)
      = JNum (time_now (example_world\<lparr>time_now := 1700000000\<rparr>))
   \<and> filter refresh_event (fst (main (example_world\<lparr>time_now := 1700000000\<rparr>))) = []
   \<and> filter authenticated (fst (main (example_world\<lparr>time_now := 1700000000\<rparr>)))
        = [GetActivities (JStr ''a0'') 30 1 1767225600, GetActivity 11 (JStr ''a0'')]"
  by (simp add: model_defs example_defs Let_def)

subsection \<open>The chart\<close>

lemma py_max_eq: "py_max a b = max a b"
  by (simp add: py_max_def max_def)

text \<open>
  C4. Whenever the page render completes, the chart has the two rows Actual and Target,
  where Actual is the year-to-date running distance in kilometres and Target is
  \<open>max 0 (target_today - actual)\<close>: never negative, and 0 when the actual distance
  exceeds the target.
\<close>

theorem chart_remaining_to_target:
  assumes "snd (main w) = Done"
    and "activities_response w = Response status (Some activities)"
  shows "let actual = sum_list (map distance (filter (\<lambda>a. activity_type a = ''Run'') activities)) / 1000;
             remaining = max 0 (calculate_target_km (today_now w) - actual)
         in AltairChart [\<lparr>label = ''YTD'', segment = ''Actual'', kms = actual\<rparr>,
                         \<lparr>label = ''YTD'', segment = ''Target'', kms = remaining\<rparr>]
              \<in> set (fst (main w))
            \<and> 0 \<le> remaining
            \<and> (calculate_target_km (today_now w) < actual \<longrightarrow> remaining = 0)"
proof -
  have r: "filter (\<lambda>a. activity_type a = ''Run'') activities = filter is_run activities"
    by (simp add: is_run_def [abs_def])
  from main_Done_events [OF assms] obtain pre mid post where
    "fst (main w) = pre @ year_to_date_stats (filter is_run activities) @ mid
       @ [AltairChart (chart_df (calculate_target_km (today_now w))
            (running_distance_year_km (filter is_run activities)))] @ post"
    by blast
  then have "AltairChart (chart_df (calculate_target_km (today_now w))
            (running_distance_year_km (filter is_run activities))) \<in> set (fst (main w))"
    by simp
  then show ?thesis
    by (simp add: r Let_def chart_df_def py_max_eq running_distance_year_km_def series_sum_def)
qed

theorem chart_remaining_to_target_witness:
  "AltairChart [\<lparr>label = ''YTD'', segment = ''Actual'', kms = 15\<rparr>,
                \<lparr>label = ''YTD'', segment = ''Target'', kms = 89135 / 91\<rparr>]
     \<in> set (fst (main example_world))
   \<and> kms (chart_df 1000 1200 ! 1) = 0"
proof -
  have d: "snd (main example_world) = Done"
    by (simp add: model_defs example_defs Let_def)
  have a: "activities_response example_world = Response 200 (Some [run_5k, ride_20k, run_10k])"
    by (simp add: example_world_def)
  have t: "calculate_target_km (today_now example_world) = 90500 / 91"
    by (simp add: example_world_def calculate_target_km_def datetime_sub_def new_timedelta_def
        toordinal_def ymd2ord_def days_before_month_def DAYS_BEFORE_MONTH_def is_leap_def
        datetime_ymd_def Let_def)
  have s: "sum_list (map distance (filter (\<lambda>a. activity_type a = ''Run'') [run_5k, ride_20k, run_10k])) = 15000"
    by (simp add: run_5k_def ride_20k_def run_10k_def)
  have "kms (chart_df 1000 1200 ! 1) = 0" by (simp add: chart_df_def py_max_def)
  moreover have "AltairChart [\<lparr>label = ''YTD'', segment = ''Actual'', kms = 15\<rparr>,
                \<lparr>label = ''YTD'', segment = ''Target'', kms = 89135 / 91\<rparr>]
     \<in> set (fst (main example_world))"
    using chart_remaining_to_target [OF d a] unfolding Let_def s t by simp
  ultimately show ?thesis by simp
qed

subsection \<open>Year-to-date running statistics\<close>

lemma sum_list_word_of_int:
  "(sum_list ws :: 64 word) = word_of_int (sum_list (map sint ws))"
  by (induction ws) simp_all

lemma sint_sum_list:
  "sint (sum_list ws :: 64 word) = (sum_list (map sint ws) + 2 ^ 63) mod 2 ^ 64 - 2 ^ 63"
proof -
  have "sint (sum_list ws :: 64 word) = signed_take_bit 63 (sum_list (map sint ws))"
    by (subst sum_list_word_of_int) (simp add: sint_sbintrunc')
  also have "\<dots> = (sum_list (map sint ws) + 2 ^ 63) mod 2 ^ 64 - 2 ^ 63"
    by (simp add: signed_take_bit_eq_take_bit_shift take_bit_eq_mod)
  finally show ?thesis .
qed

lemma wrap_in_range:
  fixes s :: int
  assumes "- (2 ^ 63) \<le> s" "s < 2 ^ 63"
  shows "(s + 2 ^ 63) mod 2 ^ 64 - 2 ^ 63 = s"
proof -
  have "0 \<le> s + 2 ^ 63" "s + 2 ^ 63 < 2 ^ 64" using assms by simp_all
  then have "(s + 2 ^ 63) mod 2 ^ 64 = s + 2 ^ 63" by (rule mod_pos_pos_trivial)
  then show ?thesis by simp
qed

lemma year_to_date_stats_eq:
  "year_to_date_stats runs =
     [Subheader (JStr ''Year-to-date Running stats''),
      Columns 4,
      Metric ''Distance (km)'' (Fixed 2 (sum_list (map distance runs) / 1000)),
      Metric ''Moving time (min)''
        (Fixed 0 (real_of_int
           ((sum_list (map (\<lambda>a. sint (moving_time a)) runs) + 2 ^ 63) mod 2 ^ 64 - 2 ^ 63) / 60)),
      Metric ''Avg pace (km/h)''
        (if runs = [] then NaNText
         else Fixed 2 (sum_list (map average_speed runs) / real (length runs) * 3.6)),
      Metric ''Total Activities'' (Integer (int (length runs)))]"
  by (simp add: year_to_date_stats_def running_distance_year_km_def series_sum_def
      series_sum_int64_def series_mean_def sint_sum_list comp_def)

text \<open>
  C5, as the code has it. For every list of rows, the year-to-date block over its rows of
  type Run is: the sum of the distances divided by 1000; the sum of the moving times,
  taken in 64-bit two's-complement arithmetic, divided by 60; the mean of the average
  speeds multiplied by 3.6, or a NaN when there is no such row; and the number of such
  rows. The 64-bit sum is the plain sum whenever that lies between \<open>- 2 ^ 63\<close> and
  \<open>2 ^ 63 - 1\<close>. On the page: for every page load whose list fetch returned the
  activities, if the render completes or draws any metric at all, then the list has a row
  of type Run and the block over the rows of type Run of that list is on the page.
\<close>

theorem year_to_date_run_statistics:
  "year_to_date_stats runs =
     [Subheader (JStr ''Year-to-date Running stats''),
      Columns 4,
      Metric ''Distance (km)'' (Fixed 2 (sum_list (map distance runs) / 1000)),
      Metric ''Moving time (min)''
        (Fixed 0 (real_of_int
           ((sum_list (map (\<lambda>a. sint (moving_time a)) runs) + 2 ^ 63) mod 2 ^ 64 - 2 ^ 63) / 60)),
      Metric ''Avg pace (km/h)''
        (if runs = [] then NaNText
         else Fixed 2 (sum_list (map average_speed runs) / real (length runs) * 3.6)),
      Metric ''Total Activities'' (Integer (int (length runs)))]
   \<and> (- (2 ^ 63) \<le> sum_list (map (\<lambda>a. sint (moving_time a)) runs)
        \<and> sum_list (map (\<lambda>a. sint (moving_time a)) runs) < 2 ^ 63 \<longrightarrow>
      (sum_list (map (\<lambda>a. sint (moving_time a)) runs) + 2 ^ 63) mod 2 ^ 64 - 2 ^ 63
        = sum_list (map (\<lambda>a. sint (moving_time a)) runs))
   \<and> (activities_response w = Response status (Some activities)
        \<and> (snd (main w) = Done \<or> Metric l v \<in> set (fst (main w))) \<longrightarrow>
      filter (\<lambda>a. activity_type a = ''Run'') activities \<noteq> []
      \<and> (\<exists>pre post. fst (main w) =
            pre @ year_to_date_stats (filter (\<lambda>a. activity_type a = ''Run'') activities) @ post))"
proof (intro conjI impI)
  show "year_to_date_stats runs =
     [Subheader (JStr ''Year-to-date Running stats''),
      Columns 4,
      Metric ''Distance (km)'' (Fixed 2 (sum_list (map distance runs) / 1000)),
      Metric ''Moving time (min)''
        (Fixed 0 (real_of_int
           ((sum_list (map (\<lambda>a. sint (moving_time a)) runs) + 2 ^ 63) mod 2 ^ 64 - 2 ^ 63) / 60)),
      Metric ''Avg pace (km/h)''
        (if runs = [] then NaNText
         else Fixed 2 (sum_list (map average_speed runs) / real (length runs) * 3.6)),
      Metric ''Total Activities'' (Integer (int (length runs)))]"
    by (rule year_to_date_stats_eq)
next
  assume "- (2 ^ 63) \<le> sum_list (map (\<lambda>a. sint (moving_time a)) runs)
        \<and> sum_list (map (\<lambda>a. sint (moving_time a)) runs) < 2 ^ 63"
  then show "(sum_list (map (\<lambda>a. sint (moving_time a)) runs) + 2 ^ 63) mod 2 ^ 64 - 2 ^ 63
        = sum_list (map (\<lambda>a. sint (moving_time a)) runs)"
    by (simp add: wrap_in_range)
next
  assume h: "activities_response w = Response status (Some activities)
        \<and> (snd (main w) = Done \<or> Metric l v \<in> set (fst (main w)))"
  have r: "filter (\<lambda>a. activity_type a = ''Run'') activities = filter is_run activities"
    by (simp add: is_run_def [abs_def])
  from h have a: "activities_response w = Response status (Some activities)" by simp
  have "filter is_run activities \<noteq> []
       \<and> (\<exists>pre post. fst (main w) = pre @ year_to_date_stats (filter is_run activities) @ post)"
  proof (cases "snd (main w) = Done")
    case True
    from main_Done_events [OF True a] show ?thesis by blast
  next
    case False
    with h have "Metric l v \<in> set (fst (main w))" by simp
    from main_metric [OF this a] show ?thesis .
  qed
  then show "filter (\<lambda>a. activity_type a = ''Run'') activities \<noteq> []"
    and "\<exists>pre post. fst (main w) =
            pre @ year_to_date_stats (filter (\<lambda>a. activity_type a = ''Run'') activities) @ post"
    by (simp_all add: r)
qed

theorem year_to_date_run_statistics_witness:
  "\<exists>pre post. fst (main (example_world\<lparr>activities_response := Response 200 (Some [run_5k, run_10k])\<rparr>)) =
      pre @ [Subheader (JStr ''Year-to-date Running stats''),
             Columns 4,
             Metric ''Distance (km)'' (Fixed 2 15),
             Metric ''Moving time (min)'' (Fixed 0 80),
             Metric ''Avg pace (km/h)'' (Fixed 2 (63 / 5)),
             Metric ''Total Activities'' (Integer 2)] @ post"
proof -
  let ?w = "example_world\<lparr>activities_response := Response 200 (Some [run_5k, run_10k])\<rparr>"
  let ?runs = "[run_5k, run_10k]"
  have d: "snd (main ?w) = Done"
    by (simp add: model_defs example_defs Let_def)
  have a: "activities_response ?w = Response 200 (Some ?runs)"
    by simp
  have f: "filter (\<lambda>a. activity_type a = ''Run'') ?runs = ?runs"
    by (simp add: run_5k_def run_10k_def)
  have m: "sum_list (map (\<lambda>a. sint (moving_time a)) ?runs) = 4800"
    by (simp add: run_5k_def run_10k_def)
  have v: "sum_list (map distance ?runs) / 1000 = 15"
    "sum_list (map average_speed ?runs) / real (length ?runs) * 3.6 = 63 / 5"
    "int (length ?runs) = 2" "?runs \<noteq> []"
    by (simp_all add: run_5k_def run_10k_def)
  note t = year_to_date_run_statistics [of ?runs ?w 200 ?runs]
  from t have s: "year_to_date_stats ?runs =
      [Subheader (JStr ''Year-to-date Running stats''), Columns 4,
       Metric ''Distance (km)'' (Fixed 2 15), Metric ''Moving time (min)'' (Fixed 0 80),
       Metric ''Avg pace (km/h)'' (Fixed 2 (63 / 5)), Metric ''Total Activities'' (Integer 2)]"
    unfolding m v by simp
  from t d a have "\<exists>pre post. fst (main ?w) = pre @ year_to_date_stats ?runs @ post"
    unfolding f by blast
  then show ?thesis unfolding s .
qed

text \<open>
  C5, as the claim words it, fails twice. For a fetched list with one ride and no run no
  metric is drawn at all. For two runs whose moving times add up to \<open>2 ^ 63\<close> seconds
  the page shows \<open>- 2 ^ 63 / 60\<close> minutes, not the sum divided by 60.
\<close>

theorem year_to_date_run_statistics_counterexample:
  "filter is_metric (fst (main (example_world\<lparr>activities_response := Response 200 (Some [ride_20k])\<rparr>))) = []
   \<and> sum_list (map (\<lambda>a. sint (moving_time a)) [run_long, run_long]) = 9223372036854775808
   \<and> Metric ''Moving time (min)'' (Fixed 0 (- 9223372036854775808 / 60))
       \<in> set (fst (main (example_world\<lparr>activities_response := Response 200 (Some [run_long, run_long])\<rparr>)))"
  by (simp add: model_defs example_defs Let_def)

subsection \<open>Average speed of the latest run\<close>

lemma dashboard_avg_speed_metric:
  assumes "key_stats activity = Inr ks"
  shows "Metric ''Avg speed (km/h)'' (avg_speed_shown (avg_kmh ks))
           \<in> set (fst (dashboard td dec acts runs activity))"
proof -
  have "Metric ''Avg speed (km/h)'' (avg_speed_shown (avg_kmh ks))
          \<in> set (fst (latest_run_summary activity ks))"
    by (simp add: latest_run_summary_def after_def)
  moreover have "set (fst (latest_run_summary activity ks))
      \<subseteq> set (fst (dashboard td dec acts runs activity))"
  proof -
    obtain rest where d: "dashboard td dec acts runs activity =
        then_run (year_to_date_stats runs, Done) (then_run (latest_run_summary activity ks) rest)"
      by (simp add: dashboard_def assms)
    have "fst (dashboard td dec acts runs activity) =
        year_to_date_stats runs @ fst (then_run (latest_run_summary activity ks) rest)"
      by (simp add: d then_run_fst_Done)
    then show ?thesis
      using then_run_fst_superset [of "latest_run_summary activity ks" rest] by auto
  qed
  ultimately show ?thesis by blast
qed

lemma key_stats_avg_kmh:
  assumes "key_stats activity = Inr ks"
  shows "avg_kmh_of activity = Inr (avg_kmh ks)"
  using assms by (auto simp add: key_stats_def split: sum.splits)

text \<open>
  C7. For every activity record whose \<^verbatim>\<open>average_speed\<close> is absent or zero, the
  derived km/h value is unavailable without an error, and the metric shows the placeholder
  N/A; when \<^verbatim>\<open>average_speed\<close> is a number other than zero, the derived value is
  \<open>average_speed * 3.6\<close>, and the metric shows it with two decimals. The metric is on
  the page whenever the key stats of the record are computed without an error.
\<close>

theorem avg_speed_unavailable_or_converted:
  "(map_of activity ''average_speed'' = None \<or> map_of activity ''average_speed'' = Some (JNum 0) \<longrightarrow>
      avg_kmh_of activity = Inr None
      \<and> (\<not> isl (key_stats activity) \<longrightarrow>
           Metric ''Avg speed (km/h)'' (Text ''N/A'')
             \<in> set (fst (dashboard td dec acts runs activity))))
   \<and> (map_of activity ''average_speed'' = Some (JNum v) \<and> v \<noteq> 0 \<longrightarrow>
      avg_kmh_of activity = Inr (Some (v * 3.6))
      \<and> (\<not> isl (key_stats activity) \<longrightarrow>
           Metric ''Avg speed (km/h)'' (Fixed 2 (v * 3.6))
             \<in> set (fst (dashboard td dec acts runs activity))))"
proof (intro conjI impI)
  assume h: "map_of activity ''average_speed'' = None \<or> map_of activity ''average_speed'' = Some (JNum 0)"
  then show a: "avg_kmh_of activity = Inr None"
    by (auto simp add: avg_kmh_of_def dict_get_def)
  assume "\<not> isl (key_stats activity)"
  then obtain ks where k: "key_stats activity = Inr ks"
    by (cases "key_stats activity") simp_all
  with a have "avg_kmh ks = None" by (simp add: key_stats_avg_kmh)
  with dashboard_avg_speed_metric [OF k, of td dec acts runs]
  show "Metric ''Avg speed (km/h)'' (Text ''N/A'') \<in> set (fst (dashboard td dec acts runs activity))"
    by (simp add: avg_speed_shown_def)
next
  assume h: "map_of activity ''average_speed'' = Some (JNum v) \<and> v \<noteq> 0"
  then show a: "avg_kmh_of activity = Inr (Some (v * 3.6))"
    by (simp add: avg_kmh_of_def dict_get_def times_float_def)
  assume "\<not> isl (key_stats activity)"
  then obtain ks where k: "key_stats activity = Inr ks"
    by (cases "key_stats activity") simp_all
  with a have "avg_kmh ks = Some (v * 3.6)" by (simp add: key_stats_avg_kmh)
  with dashboard_avg_speed_metric [OF k, of td dec acts runs] h
  show "Metric ''Avg speed (km/h)'' (Fixed 2 (v * 3.6)) \<in> set (fst (dashboard td dec acts runs activity))"
    by (simp add: avg_speed_shown_def)
qed

theorem avg_speed_unavailable_or_converted_witness:
  "avg_kmh_of example_activity = Inr None
   \<and> Metric ''Avg speed (km/h)'' (Text ''N/A'')
       \<in> set (fst (dashboard (today_now example_world) (\<lambda>p. Inr []) [run_5k] [run_5k] example_activity))
   \<and> avg_kmh_of ((''average_speed'', JNum 3) # example_activity) = Inr (Some (3 * 3.6))
   \<and> Metric ''Avg speed (km/h)'' (Fixed 2 (3 * 3.6))
       \<in> set (fst (dashboard (today_now example_world) (\<lambda>p. Inr []) [run_5k] [run_5k]
                     ((''average_speed'', JNum 3) # example_activity)))"
proof -
  let ?fast = "(''average_speed'', JNum 3) # example_activity"
  have m1: "map_of example_activity ''average_speed'' = None"
    by (simp add: example_activity_def)
  have m2: "map_of ?fast ''average_speed'' = Some (JNum 3) \<and> (3::real) \<noteq> 0"
    by simp
  have k1: "\<not> isl (key_stats example_activity)"
    by (simp add: key_stats_def avg_kmh_of_def true_div_def times_float_def dict_get_def
        example_activity_def)
  have k2: "\<not> isl (key_stats ?fast)"
    by (simp add: key_stats_def avg_kmh_of_def true_div_def times_float_def dict_get_def
        example_activity_def)
  show ?thesis
    using avg_speed_unavailable_or_converted
            [of example_activity "today_now example_world" "\<lambda>p. Inr []" "[run_5k]" "[run_5k]" 3]
          avg_speed_unavailable_or_converted
            [of ?fast "today_now example_world" "\<lambda>p. Inr []" "[run_5k]" "[run_5k]" 3]
          m1 m2 k1 k2
    by simp
qed

subsection \<open>The route\<close>











end
